theory Spec2Isabelle
  imports Main "HOL-Library.Word"
begin

section \<open>Python values that travel through the chat endpoint\<close>

text \<open>
  \<open>function_app.py\<close> works on what \<open>req.get_json()\<close> returns: the Python object
  that \<open>json.loads\<close> builds from the request body. Such an object is \<open>None\<close>, a
  \<open>bool\<close>, an \<open>int\<close> (unbounded), a \<open>float\<close> (an IEEE-754 binary64, kept here as its 64
  bits), a \<open>str\<close>, a \<open>list\<close> or a \<open>dict\<close> with \<open>str\<close> keys. A \<open>dict\<close> keeps the
  insertion order of its keys, so it is an association list; in a Python \<open>dict\<close> the keys
  are distinct, and lookup takes the entry of the key.

  A \<open>str\<close> is a \<open>string\<close>; the handlers only compare strings to the empty string,
  concatenate them and pass them on, so the character type plays no role.
\<close>

datatype json =
    JNull
  | JBool bool
  | JInt int
  | JFloat "64 word"
  | JStr string
  | JArr "json list"
  | JObj "(string \<times> json) list"

text \<open>
  Python truthiness, as \<open>if not message\<close> reads it: \<open>None\<close>, \<open>False\<close>, the integer zero,
  the floats \<open>0.0\<close> and \<open>-0.0\<close>, and the empty \<open>str\<close>, \<open>list\<close> and \<open>dict\<close> are falsy;
  every other value (\<open>nan\<close> included) is truthy.
\<close>

definition float_is_zero :: "64 word \<Rightarrow> bool" where
  "float_is_zero w = (w = 0 \<or> w = 0x8000000000000000)"

fun truthy :: "json \<Rightarrow> bool" where
  "truthy JNull = False"
| "truthy (JBool b) = b"
| "truthy (JInt i) = (i \<noteq> 0)"
| "truthy (JFloat w) = (\<not> float_is_zero w)"
| "truthy (JStr s) = (s \<noteq> [])"
| "truthy (JArr xs) = (xs \<noteq> [])"
| "truthy (JObj kvs) = (kvs \<noteq> [])"

fun is_str :: "json \<Rightarrow> bool" where
  "is_str (JStr s) = True"
| "is_str v = False"

subsection \<open>String rendering\<close>

text \<open>
  The f-string \<open>f"Echo: {message}"\<close> formats \<open>message\<close> with an empty format
  specification, which is \<open>str(message)\<close> for each of the types above: a \<open>str\<close> is
  itself, an \<open>int\<close> is its decimal numeral, \<open>True\<close>, \<open>False\<close> and \<open>None\<close> are their names,
  and a \<open>list\<close> or \<open>dict\<close> shows the \<open>repr\<close> of its elements. The \<open>repr\<close> of a \<open>str\<close>
  (quoting and escaping) and of a \<open>float\<close> (shortest round-trip decimal) are the
  interpreter's own algorithms: they are parameters of the model.
\<close>

record py_builtins =
  repr_str :: "string \<Rightarrow> string"
  repr_float :: "64 word \<Rightarrow> string"

definition digit_char :: "nat \<Rightarrow> char" where
  "digit_char d = ''0123456789'' ! d"

fun str_nat :: "nat \<Rightarrow> string" where
  "str_nat n = (if n < 10 then [digit_char n] else str_nat (n div 10) @ [digit_char (n mod 10)])"

declare str_nat.simps [simp del]

definition str_int :: "int \<Rightarrow> string" where
  "str_int i = (if i < 0 then CHR ''-'' # str_nat (nat (- i)) else str_nat (nat i))"

fun str_join :: "string \<Rightarrow> string list \<Rightarrow> string" where
  "str_join sep [] = []"
| "str_join sep [x] = x"
| "str_join sep (x # y # ys) = x @ sep @ str_join sep (y # ys)"

fun py_repr :: "py_builtins \<Rightarrow> json \<Rightarrow> string" where
  "py_repr L JNull = ''None''"
| "py_repr L (JBool b) = (if b then ''True'' else ''False'')"
| "py_repr L (JInt i) = str_int i"
| "py_repr L (JFloat w) = repr_float L w"
| "py_repr L (JStr s) = repr_str L s"
| "py_repr L (JArr xs) = ''['' @ str_join '', '' (map (py_repr L) xs) @ '']''"
| "py_repr L (JObj kvs) =
     ''{'' @ str_join '', '' (map (\<lambda>(k, v). repr_str L k @ '': '' @ py_repr L v) kvs) @ ''}''"

fun py_str :: "py_builtins \<Rightarrow> json \<Rightarrow> string" where
  "py_str L (JStr s) = s"
| "py_str L v = py_repr L v"

subsection \<open>Exceptions and attribute access\<close>

text \<open>
  The exceptions that can occur in the handler are instances of \<open>Exception\<close>.
  \<open>ValueError\<close> stands for the class and its subclasses (\<open>json.JSONDecodeError\<close> and
  \<open>UnicodeDecodeError\<close> are the two that \<open>get_json\<close> raises on a body that is not JSON);
  \<open>OtherException\<close> carries the class name of any other \<open>Exception\<close> subclass. Each
  carries its message.
\<close>

datatype py_exception =
    ValueError string
  | AttributeError string
  | OtherException string string

fun isinstance_ValueError :: "py_exception \<Rightarrow> bool" where
  "isinstance_ValueError (ValueError m) = True"
| "isinstance_ValueError e = False"

fun type_name :: "json \<Rightarrow> string" where
  "type_name JNull = ''NoneType''"
| "type_name (JBool b) = ''bool''"
| "type_name (JInt i) = ''int''"
| "type_name (JFloat w) = ''float''"
| "type_name (JStr s) = ''str''"
| "type_name (JArr xs) = ''list''"
| "type_name (JObj kvs) = ''dict''"

text \<open>\<open>dict.get(key, default)\<close>: the value of the key, or the default when the key is absent.\<close>

definition dict_get :: "(string \<times> json) list \<Rightarrow> string \<Rightarrow> json \<Rightarrow> json" where
  "dict_get kvs k d = (case map_of kvs k of None \<Rightarrow> d | Some v \<Rightarrow> v)"

text \<open>
  \<open>req_body.get(key, default)\<close>: only a \<open>dict\<close> has the attribute \<open>get\<close>; on any other
  value the attribute lookup raises \<open>AttributeError\<close>.
\<close>

fun py_get :: "json \<Rightarrow> string \<Rightarrow> json \<Rightarrow> py_exception + json" where
  "py_get (JObj kvs) k d = Inr (dict_get kvs k d)"
| "py_get v k d = Inl (AttributeError (CHR 0x27 # type_name v @ [CHR 0x27] @ '' object has no attribute '' @ [CHR 0x27] @ ''get'' @ [CHR 0x27]))"

section \<open>The HTTP handlers of \<open>function_app.py\<close>\<close>

text \<open>
  The request is the host's \<open>HttpRequest\<close>. Its method \<open>get_json\<close> belongs to the host
  library: it decodes the body as UTF-8 and parses it with \<open>json.loads\<close>, returning the
  parsed object or raising. The outcome of that call is a field of the request.

  The response is the host's \<open>HttpResponse\<close>. Every response of this program is built
  from \<open>json.dumps(d)\<close> for a dictionary \<open>d\<close>; the body is kept as that value \<open>d\<close>, the
  JSON document the caller reads back.

  \<open>datetime.utcnow().isoformat()\<close> is read once on every path: its result is the
  parameter \<open>now\<close>. The \<open>logging\<close> calls write to the host's log and return nothing; the
  arguments they evaluate inside the \<open>try\<close> block (\<open>json.dumps\<close> of a parsed object) do
  not raise, so they do not appear below. Limits of the interpreter (recursion depth,
  memory) are outside the model.
\<close>

record http_request =
  "method" :: string
  url :: string
  headers :: "(string \<times> string) list"
  get_json :: "py_exception + json"

record http_response =
  body :: json
  status_code :: nat
  mimetype :: string

definition error_response :: "string \<Rightarrow> string \<Rightarrow> nat \<Rightarrow> http_response" where
  "error_response msg now code =
     \<lparr>body = JObj [(''error'', JStr msg), (''timestamp'', JStr now)],
      status_code = code,
      mimetype = ''application/json''\<rparr>"

text \<open>The body of the \<open>try\<close> block of \<open>chat_api\<close>: a response, or the exception raised.\<close>

definition chat_try :: "py_builtins \<Rightarrow> string \<Rightarrow> http_request \<Rightarrow> py_exception + http_response" where
  "chat_try L now req =
     (case get_json req of
        Inl e \<Rightarrow> Inl e
      | Inr req_body \<Rightarrow>
          (case py_get req_body ''message'' (JStr '''') of
             Inl e \<Rightarrow> Inl e
           | Inr message \<Rightarrow>
               (case py_get req_body ''user_id'' (JStr ''anonymous'') of
                  Inl e \<Rightarrow> Inl e
                | Inr user_id \<Rightarrow>
                    if \<not> truthy message
                    then Inr (error_response ''Message field is required'' now 400)
                    else Inr \<lparr>body = JObj [(''status'', JStr ''success''),
                                             (''user_id'', user_id),
                                             (''message_received'', message),
                                             (''response'', JStr (''Echo: '' @ py_str L message)),
                                             (''timestamp'', JStr now)],
                              status_code = 200,
                              mimetype = ''application/json''\<rparr>)))"

text \<open>
  \<open>chat_api\<close>: the \<open>try\<close> block with its two handlers, in the order of the source:
  \<open>except ValueError\<close> first, \<open>except Exception\<close> second. The result is \<open>Inr\<close> of the
  response returned, or \<open>Inl\<close> of an exception that leaves the function.
\<close>

definition chat_api :: "py_builtins \<Rightarrow> string \<Rightarrow> http_request \<Rightarrow> py_exception + http_response" where
  "chat_api L now req =
     (case chat_try L now req of
        Inr r \<Rightarrow> Inr r
      | Inl e \<Rightarrow>
          if isinstance_ValueError e
          then Inr (error_response ''Invalid JSON format'' now 400)
          else Inr (error_response ''Internal server error'' now 500))"

definition health_check :: "string \<Rightarrow> http_request \<Rightarrow> http_response" where
  "health_check now req =
     \<lparr>body = JObj [(''status'', JStr ''healthy''), (''timestamp'', JStr now)],
      status_code = 200,
      mimetype = ''application/json''\<rparr>"

text \<open>
  The tests read a response back and look for a word in the lower-cased error text
  (\<open>'required' in response_data['error'].lower()\<close>). \<open>str_lower\<close> is \<open>str.lower\<close> on
  ASCII text; \<open>str_contains needle hay\<close> is Python's \<open>needle in hay\<close> on strings.
\<close>

definition char_lower :: "char \<Rightarrow> char" where
  "char_lower c =
     (let n = (of_char c :: nat) in if 65 \<le> n \<and> n \<le> 90 then char_of (n + 32) else c)"

definition str_lower :: "string \<Rightarrow> string" where
  "str_lower s = map char_lower s"

fun starts_with :: "string \<Rightarrow> string \<Rightarrow> bool" where
  "starts_with [] hay = True"
| "starts_with (c # cs) [] = False"
| "starts_with (c # cs) (h # hs) = (c = h \<and> starts_with cs hs)"

fun str_contains :: "string \<Rightarrow> string \<Rightarrow> bool" where
  "str_contains needle [] = (needle = [])"
| "str_contains needle (h # hs) = (starts_with needle (h # hs) \<or> str_contains needle hs)"

section \<open>The task runner \<open>build.py\<close>: \<open>az_deploy\<close> and \<open>main\<close>\<close>

text \<open>
  A task of \<open>build.py\<close> acts on the world: it writes lines to standard output and
  standard error, touches the file system and starts other programs. A run of a task is
  the list of these effects in order, together with how the run ends: the function
  returns, the process exits through \<open>sys.exit(code)\<close>, or an exception that nothing
  catches ends it.
\<close>

datatype event =
    Stdout string
  | Stderr string
  | FileSystem string
  | Subprocess "string list" "string option"

datatype 'a outcome =
    Returned 'a
  | Exited int
  | Uncaught string

type_synonym 'a proc = "event list \<times> 'a outcome"

definition skip :: "unit proc" where
  "skip = ([], Returned ())"

text \<open>Two statements in sequence: the second runs only if the first returns.\<close>

definition and_then :: "unit proc \<Rightarrow> unit proc \<Rightarrow> unit proc" where
  "and_then p q =
     (case snd p of
        Returned u \<Rightarrow> (fst p @ fst q, snd q)
      | Exited c \<Rightarrow> (fst p, Exited c)
      | Uncaught e \<Rightarrow> (fst p, Uncaught e))"

fun block :: "unit proc list \<Rightarrow> unit proc" where
  "block [] = skip"
| "block (p # ps) = and_then p (block ps)"

definition sys_exit :: "int \<Rightarrow> unit proc" where
  "sys_exit code = ([], Exited code)"

text \<open>
  The class \<open>Colors\<close>: ANSI escape sequences. The symbols that the print helpers put
  before a message are outside ASCII; they are written as their UTF-8 bytes.
\<close>

definition Colors_BLUE :: string where "Colors_BLUE = CHR 0x1B # ''[94m''"
definition Colors_GREEN :: string where "Colors_GREEN = CHR 0x1B # ''[92m''"
definition Colors_YELLOW :: string where "Colors_YELLOW = CHR 0x1B # ''[93m''"
definition Colors_RED :: string where "Colors_RED = CHR 0x1B # ''[91m''"
definition Colors_ENDC :: string where "Colors_ENDC = CHR 0x1B # ''[0m''"
definition Colors_BOLD :: string where "Colors_BOLD = CHR 0x1B # ''[1m''"

definition newline :: string where "newline = [CHR 0x0A]"

text \<open>\<open>print(x)\<close> writes \<open>x\<close> and a newline to standard output, or to the given file.\<close>

definition print_header :: "string \<Rightarrow> unit proc" where
  "print_header message =
     ([Stdout (newline @ Colors_BLUE @ Colors_BOLD @ message @ Colors_ENDC @ newline),
       Stdout (replicate (length message) CHR ''='' @ newline)],
      Returned ())"

definition print_success :: "string \<Rightarrow> unit proc" where
  "print_success message =
     ([Stdout (Colors_GREEN @ [CHR 0xE2, CHR 0x9C, CHR 0x85] @ '' '' @ message @ Colors_ENDC @ newline)],
      Returned ())"

definition print_error :: "string \<Rightarrow> unit proc" where
  "print_error message =
     ([Stderr (Colors_RED @ [CHR 0xE2, CHR 0x9D, CHR 0x8C] @ '' '' @ message @ Colors_ENDC @ newline)],
      Returned ())"

definition print_info :: "string \<Rightarrow> unit proc" where
  "print_info message =
     ([Stdout (Colors_BLUE @ [CHR 0xE2, CHR 0x84, CHR 0xB9, CHR 0xEF, CHR 0xB8, CHR 0x8F] @ ''  '' @ message
               @ Colors_ENDC @ newline)],
      Returned ())"

text \<open>
  The world a run meets. \<open>subprocess_run cmd cwd\<close> is what \<open>subprocess.run\<close> does with
  the program: \<open>Inr\<close> of its return code, or, when the program cannot be started, \<open>Inl\<close>
  of the class name of the exception raised (\<open>FileNotFoundError\<close>, \<open>PermissionError\<close> or
  another \<open>OSError\<close>). \<open>run_command\<close> catches \<open>CalledProcessError\<close> only, so such an
  exception leaves it. \<open>az_package\<close> is the run of the function \<open>az_package\<close>, which deletes and creates
  files, installs dependencies and writes the zip archive; \<open>task name\<close> is the run of
  each other task function registered in \<open>main\<close>. What they do depends on the file system
  and on the tools installed.
\<close>

record world =
  subprocess_run :: "string list \<Rightarrow> string option \<Rightarrow> string + int"
  az_package :: "unit proc"
  task :: "string \<Rightarrow> unit proc"

definition run_command :: "world \<Rightarrow> string list \<Rightarrow> string option \<Rightarrow> bool \<Rightarrow> unit proc" where
  "run_command W cmd cwd check =
     (case subprocess_run W cmd cwd of
        Inl os_error \<Rightarrow> ([Subprocess cmd cwd], Uncaught os_error)
      | Inr returncode \<Rightarrow>
          if check \<and> returncode \<noteq> 0
          then block [([Subprocess cmd cwd], Returned ()),
                      print_error (''Command failed with exit code '' @ str_int returncode),
                      sys_exit returncode]
          else ([Subprocess cmd cwd], Returned ()))"

definition usage_az_deploy :: string where
  "usage_az_deploy = ''Usage: python build.py az-deploy --function-app <name> --resource-group <group>''"

definition az_deploy :: "world \<Rightarrow> string \<Rightarrow> string \<Rightarrow> unit proc" where
  "az_deploy W function_app_name resource_group =
     block [
       print_header ''Deploying to Azure Functions...'',
       (if function_app_name = [] \<or> function_app_name = ''your-function-app-name''
        then block [print_error ''FUNCTION_APP_NAME not set'',
                    print_info usage_az_deploy,
                    sys_exit 1]
        else skip),
       (if resource_group = [] \<or> resource_group = ''your-resource-group''
        then block [print_error ''RESOURCE_GROUP not set'',
                    print_info usage_az_deploy,
                    sys_exit 1]
        else skip),
       az_package W,
       print_info (''Deploying to '' @ function_app_name @ '' in '' @ resource_group @ ''...''),
       run_command W
         [''az'', ''functionapp'', ''deployment'', ''source'', ''config-zip'',
          ''--resource-group'', resource_group,
          ''--name'', function_app_name,
          ''--src'', ''function-app.zip'',
          ''--build-remote'', ''true'']
         None True,
       print_success ''Deployment complete!'']"

definition help_text :: string where
  "help_text = concat (map (\<lambda>l. l @ newline)
    ['''',
     ''Available commands:'',
     '''',
     ''  python build.py setup          - Set up local development environment'',
     ''  python build.py clean          - Clean build artifacts and cache'',
     ''  python build.py test           - Run tests'',
     ''  python build.py coverage       - Run tests with coverage report'',
     ''  python build.py lint           - Run linting checks'',
     ''  python build.py format         - Format code with black'',
     ''  python build.py func-start     - Start Azure Function locally'',
     ''  python build.py az-package     - Create deployment package for Azure'',
     ''  python build.py az-deploy      - Deploy to Azure Functions using Azure CLI'',
     ''                                   --function-app <name> --resource-group <group>'',
     ''  python build.py tf-init        - Initialize Terraform'',
     ''  python build.py tf-plan        - Run Terraform plan'',
     ''  python build.py tf-apply       - Apply Terraform configuration'',
     ''  python build.py all            - Run format, lint, and test'',
     '''',
     ''Examples:'',
     ''  python build.py setup'',
     ''  python build.py test'',
     ''  python build.py az-deploy --function-app my-app --resource-group my-rg''])"

definition show_help :: "unit proc" where
  "show_help = ([Stdout (help_text @ newline)], Returned ())"

text \<open>
  \<open>main\<close> after \<open>parser.parse_args()\<close>: the parsed arguments are a record in which an
  option that was not given is \<open>None\<close>, and \<open>os.environ\<close> is a map. \<open>a or b\<close> on an
  optional string is \<open>b\<close> when \<open>a\<close> is \<open>None\<close> or empty.
\<close>

record args =
  command :: "string option"
  function_app :: "string option"
  resource_group :: "string option"
  "help" :: bool

definition py_or :: "string option \<Rightarrow> string \<Rightarrow> string" where
  "py_or a b = (case a of None \<Rightarrow> b | Some s \<Rightarrow> if s = [] then b else s)"

definition environ_get :: "(string \<rightharpoonup> string) \<Rightarrow> string \<Rightarrow> string \<Rightarrow> string" where
  "environ_get environ k d = (case environ k of None \<Rightarrow> d | Some v \<Rightarrow> v)"

definition commands :: "world \<Rightarrow> (string \<times> unit proc) list" where
  "commands W =
     [(''setup'', task W ''setup''),
      (''clean'', task W ''clean''),
      (''test'', task W ''test''),
      (''coverage'', task W ''coverage''),
      (''lint'', task W ''lint''),
      (''format'', task W ''format_code''),
      (''func-start'', task W ''func_start''),
      (''az-package'', az_package W),
      (''tf-init'', task W ''tf_init''),
      (''tf-plan'', task W ''tf_plan''),
      (''tf-apply'', task W ''tf_apply''),
      (''all'', task W ''run_all''),
      (''help'', show_help)]"

definition main :: "world \<Rightarrow> args \<Rightarrow> (string \<rightharpoonup> string) \<Rightarrow> unit proc" where
  "main W a environ =
     (if help a \<or> py_or (command a) [] = [] then show_help
      else
        let cmd = py_or (command a) [] in
        if cmd = ''az-deploy''
        then az_deploy W
               (py_or (function_app a) (environ_get environ ''FUNCTION_APP_NAME'' ''your-function-app-name''))
               (py_or (resource_group a) (environ_get environ ''RESOURCE_GROUP'' ''your-resource-group''))
        else
          (case map_of (commands W) cmd of
             Some run \<Rightarrow> run
           | None \<Rightarrow> block [print_error (''Unknown command: '' @ cmd), show_help, sys_exit 1]))"

section \<open>Predicates and concrete inputs used in the statements\<close>

fun is_dict :: "json \<Rightarrow> bool" where
  "is_dict (JObj kvs) = True"
| "is_dict v = False"

text \<open>A packaging or deployment step is an effect on the file system or a program started.\<close>

fun is_step :: "event \<Rightarrow> bool" where
  "is_step (FileSystem d) = True"
| "is_step (Subprocess cmd cwd) = True"
| "is_step e = False"

text \<open>
  Concrete inputs for the examples: an interpreter whose \<open>repr\<close> of a string puts it in
  single quotes, a timestamp, the request that the tests of the repository build, and a
  world in which every program succeeds.
\<close>

definition example_builtins :: py_builtins where
  "example_builtins =
     \<lparr>repr_str = (\<lambda>s. [CHR 0x27] @ s @ [CHR 0x27]), repr_float = (\<lambda>w. ''nan'')\<rparr>"

definition example_now :: string where
  "example_now = ''2024-01-01T00:00:00''"

definition post_request :: "py_exception + json \<Rightarrow> http_request" where
  "post_request parsed =
     \<lparr>method = ''POST'', url = ''/api/chat'',
      headers = [(''Content-Type'', ''application/json'')],
      get_json = parsed\<rparr>"

definition example_world :: world where
  "example_world =
     \<lparr>subprocess_run = (\<lambda>cmd cwd. Inr 0),
      az_package = ([FileSystem ''function-app.zip''], Returned ()),
      task = (\<lambda>name. skip)\<rparr>"

section \<open>Properties of the chat endpoint\<close>

lemma py_get_not_dict: "\<not> is_dict v \<Longrightarrow> \<exists>m. py_get v k d = Inl (AttributeError m)"
  by (cases v) simp_all

text \<open>On a parsed \<open>dict\<close> the \<open>try\<close> block does not raise: it validates and answers.\<close>

lemma chat_try_dict:
  "get_json req = Inr (JObj kvs) \<Longrightarrow>
   chat_try L now req =
     (if \<not> truthy (dict_get kvs ''message'' (JStr ''''))
      then Inr (error_response ''Message field is required'' now 400)
      else Inr \<lparr>body = JObj [(''status'', JStr ''success''),
                              (''user_id'', dict_get kvs ''user_id'' (JStr ''anonymous'')),
                              (''message_received'', dict_get kvs ''message'' (JStr '''')),
                              (''response'',
                                 JStr (''Echo: '' @ py_str L (dict_get kvs ''message'' (JStr '''')))),
                              (''timestamp'', JStr now)],
                status_code = 200, mimetype = ''application/json''\<rparr>)"
  by (simp add: chat_try_def)

lemma chat_try_not_dict:
  assumes "get_json req = Inr v" and "\<not> is_dict v"
  shows "\<exists>m. chat_try L now req = Inl (AttributeError m)"
proof -
  from py_get_not_dict[OF assms(2)] obtain m
    where "py_get v ''message'' (JStr '''') = Inl (AttributeError m)" by blast
  with assms(1) have "chat_try L now req = Inl (AttributeError m)"
    by (simp add: chat_try_def)
  then show ?thesis ..
qed

lemma chat_try_raise: "get_json req = Inl e \<Longrightarrow> chat_try L now req = Inl e"
  by (simp add: chat_try_def)

lemma truthy_JStr: "truthy (JStr m) = (m \<noteq> [])"
  by simp

text \<open>
  C1. For every non-empty string \<open>m\<close> and every string \<open>u\<close>, a request whose body is the
  JSON object with \<open>message\<close> \<open>m\<close> and \<open>user_id\<close> \<open>u\<close> is answered with HTTP 200 and a body
  whose \<open>status\<close> is \<open>success\<close>, whose \<open>user_id\<close> is \<open>u\<close>, whose \<open>message_received\<close> is \<open>m\<close>
  and whose \<open>response\<close> is \<open>"Echo: "\<close> followed by \<open>m\<close>. The object is given by its two
  fields, so the order of the fields in the body and further fields do not matter.
\<close>

theorem chat_api_echo:
  assumes "get_json req = Inr (JObj kvs)"
    and "map_of kvs ''message'' = Some (JStr m)" and "m \<noteq> []"
    and "map_of kvs ''user_id'' = Some (JStr u)"
  shows "chat_api L now req =
    Inr \<lparr>body = JObj [(''status'', JStr ''success''),
                       (''user_id'', JStr u),
                       (''message_received'', JStr m),
                       (''response'', JStr (''Echo: '' @ m)),
                       (''timestamp'', JStr now)],
         status_code = 200, mimetype = ''application/json''\<rparr>"
  using assms by (simp add: chat_api_def chat_try_dict dict_get_def)

text \<open>The concrete scenario of the specification, which is also the first test.\<close>

theorem chat_api_echo_witness:
  "''Hello, Azure!'' \<noteq> [] \<and>
   chat_api example_builtins example_now
     (post_request (Inr (JObj [(''message'', JStr ''Hello, Azure!''),
                               (''user_id'', JStr ''test_user_123'')]))) =
    Inr \<lparr>body = JObj [(''status'', JStr ''success''),
                       (''user_id'', JStr ''test_user_123''),
                       (''message_received'', JStr ''Hello, Azure!''),
                       (''response'', JStr ''Echo: Hello, Azure!''),
                       (''timestamp'', JStr example_now)],
         status_code = 200, mimetype = ''application/json''\<rparr>"
  using chat_api_echo[of
      "post_request (Inr (JObj [(''message'', JStr ''Hello, Azure!''),
                                (''user_id'', JStr ''test_user_123'')]))"
      "[(''message'', JStr ''Hello, Azure!''), (''user_id'', JStr ''test_user_123'')]"
      "''Hello, Azure!''" "''test_user_123''" example_builtins example_now]
  by (simp add: post_request_def)

text \<open>
  C2. When the body parses as a JSON object in which \<open>message\<close> is absent or is the empty
  string, the answer is HTTP 400 with the error text \<open>Message field is required\<close>, and
  that text, lower-cased, contains \<open>required\<close>.
\<close>

theorem chat_api_message_required:
  assumes "get_json req = Inr (JObj kvs)"
    and "map_of kvs ''message'' = None \<or> map_of kvs ''message'' = Some (JStr '''')"
  shows "chat_api L now req =
    Inr \<lparr>body = JObj [(''error'', JStr ''Message field is required''),
                       (''timestamp'', JStr now)],
         status_code = 400, mimetype = ''application/json''\<rparr>
    \<and> str_contains ''required'' (str_lower ''Message field is required'')"
proof
  from assms(2) have "dict_get kvs ''message'' (JStr '''') = JStr ''''"
    by (auto simp: dict_get_def)
  with assms(1) show "chat_api L now req =
    Inr \<lparr>body = JObj [(''error'', JStr ''Message field is required''),
                       (''timestamp'', JStr now)],
         status_code = 400, mimetype = ''application/json''\<rparr>"
    by (simp add: chat_api_def chat_try_dict error_response_def)
  show "str_contains ''required'' (str_lower ''Message field is required'')"
    by code_simp
qed

theorem chat_api_message_required_witness:
  "chat_api example_builtins example_now
     (post_request (Inr (JObj [(''user_id'', JStr ''test_user_123'')]))) =
    Inr \<lparr>body = JObj [(''error'', JStr ''Message field is required''),
                       (''timestamp'', JStr example_now)],
         status_code = 400, mimetype = ''application/json''\<rparr>
   \<and> chat_api example_builtins example_now
     (post_request (Inr (JObj [(''message'', JStr ''''), (''user_id'', JStr ''test_user_123'')]))) =
    Inr \<lparr>body = JObj [(''error'', JStr ''Message field is required''),
                       (''timestamp'', JStr example_now)],
         status_code = 400, mimetype = ''application/json''\<rparr>"
  using chat_api_message_required[of
      "post_request (Inr (JObj [(''user_id'', JStr ''test_user_123'')]))"
      "[(''user_id'', JStr ''test_user_123'')]" example_builtins example_now]
    chat_api_message_required[of
      "post_request (Inr (JObj [(''message'', JStr ''''), (''user_id'', JStr ''test_user_123'')]))"
      "[(''message'', JStr ''''), (''user_id'', JStr ''test_user_123'')]"
      example_builtins example_now]
  by (simp add: post_request_def)

text \<open>
  C3. When the body cannot be parsed as JSON, that is, when \<open>get_json\<close> raises
  \<open>ValueError\<close>, the answer is HTTP 400 with the error text \<open>Invalid JSON format\<close>, and
  that text, lower-cased, contains \<open>json\<close>.
\<close>

theorem chat_api_invalid_json:
  assumes "get_json req = Inl (ValueError msg)"
  shows "chat_api L now req =
    Inr \<lparr>body = JObj [(''error'', JStr ''Invalid JSON format''),
                       (''timestamp'', JStr now)],
         status_code = 400, mimetype = ''application/json''\<rparr>
    \<and> str_contains ''json'' (str_lower ''Invalid JSON format'')"
proof
  show "chat_api L now req =
    Inr \<lparr>body = JObj [(''error'', JStr ''Invalid JSON format''),
                       (''timestamp'', JStr now)],
         status_code = 400, mimetype = ''application/json''\<rparr>"
    using assms by (simp add: chat_api_def chat_try_raise error_response_def)
  show "str_contains ''json'' (str_lower ''Invalid JSON format'')"
    by code_simp
qed

theorem chat_api_invalid_json_witness:
  "chat_api example_builtins example_now
     (post_request (Inl (ValueError ''Expecting value: line 1 column 1 (char 0)''))) =
    Inr \<lparr>body = JObj [(''error'', JStr ''Invalid JSON format''),
                       (''timestamp'', JStr example_now)],
         status_code = 400, mimetype = ''application/json''\<rparr>"
  using chat_api_invalid_json[of
      "post_request (Inl (ValueError ''Expecting value: line 1 column 1 (char 0)''))"
      "''Expecting value: line 1 column 1 (char 0)''" example_builtins example_now]
  by (simp add: post_request_def)

text \<open>
  C4. When the body is valid JSON whose top-level value is not an object (a string, a
  number, an array, a boolean, \<open>null\<close>), the attribute access \<open>req_body.get\<close> raises
  \<open>AttributeError\<close>, which only the handler for \<open>Exception\<close> catches: the answer is
  HTTP 500 with the error text \<open>Internal server error\<close>, not HTTP 400.
\<close>

theorem chat_api_non_object:
  assumes "get_json req = Inr v" and "\<not> is_dict v"
  shows "chat_api L now req =
    Inr \<lparr>body = JObj [(''error'', JStr ''Internal server error''),
                       (''timestamp'', JStr now)],
         status_code = 500, mimetype = ''application/json''\<rparr>"
proof -
  from chat_try_not_dict[OF assms] obtain m
    where "chat_try L now req = Inl (AttributeError m)" ..
  then show ?thesis by (simp add: chat_api_def error_response_def)
qed

theorem chat_api_non_object_witness:
  "\<not> is_dict (JArr [JInt 1, JInt 2]) \<and>
   chat_api example_builtins example_now (post_request (Inr (JArr [JInt 1, JInt 2]))) =
    Inr \<lparr>body = JObj [(''error'', JStr ''Internal server error''),
                       (''timestamp'', JStr example_now)],
         status_code = 500, mimetype = ''application/json''\<rparr>
   \<and> \<not> is_dict (JStr ''hello'') \<and>
   chat_api example_builtins example_now (post_request (Inr (JStr ''hello''))) =
    Inr \<lparr>body = JObj [(''error'', JStr ''Internal server error''),
                       (''timestamp'', JStr example_now)],
         status_code = 500, mimetype = ''application/json''\<rparr>"
  using chat_api_non_object[of "post_request (Inr (JArr [JInt 1, JInt 2]))" "JArr [JInt 1, JInt 2]"
      example_builtins example_now]
    chat_api_non_object[of "post_request (Inr (JStr ''hello''))" "JStr ''hello''"
      example_builtins example_now]
  by (simp add: post_request_def)

text \<open>
  C5. When the \<open>try\<close> block raises an exception that is not a \<open>ValueError\<close>, the answer
  is HTTP 500 with the fixed error text \<open>Internal server error\<close>. The response on the
  right-hand side does not mention the exception \<open>e\<close>: whatever was raised, the caller
  sees the same body, so no detail of the cause reaches the caller.
\<close>

theorem chat_api_unexpected_failure:
  assumes "chat_try L now req = Inl e" and "\<not> isinstance_ValueError e"
  shows "chat_api L now req =
    Inr \<lparr>body = JObj [(''error'', JStr ''Internal server error''),
                       (''timestamp'', JStr now)],
         status_code = 500, mimetype = ''application/json''\<rparr>"
  using assms by (simp add: chat_api_def error_response_def)

theorem chat_api_unexpected_failure_witness:
  "chat_try example_builtins example_now
     (post_request (Inl (OtherException ''RecursionError'' ''maximum recursion depth exceeded''))) =
     Inl (OtherException ''RecursionError'' ''maximum recursion depth exceeded'')
   \<and> \<not> isinstance_ValueError (OtherException ''RecursionError'' ''maximum recursion depth exceeded'')
   \<and> chat_api example_builtins example_now
     (post_request (Inl (OtherException ''RecursionError'' ''maximum recursion depth exceeded''))) =
    Inr \<lparr>body = JObj [(''error'', JStr ''Internal server error''),
                       (''timestamp'', JStr example_now)],
         status_code = 500, mimetype = ''application/json''\<rparr>"
proof -
  have t: "chat_try example_builtins example_now
     (post_request (Inl (OtherException ''RecursionError'' ''maximum recursion depth exceeded''))) =
     Inl (OtherException ''RecursionError'' ''maximum recursion depth exceeded'')"
    by (simp add: chat_try_def post_request_def)
  have v: "\<not> isinstance_ValueError (OtherException ''RecursionError'' ''maximum recursion depth exceeded'')"
    by simp
  from chat_api_unexpected_failure[OF t v] t v show ?thesis by blast
qed

text \<open>
  C6. \<open>chat_api\<close> is total: whatever \<open>get_json\<close> returns or raises, the handler returns a
  response and no exception leaves it; the status is 200, 400 or 500; and every response
  whose status is not 200 has a body with exactly the two fields \<open>error\<close> and
  \<open>timestamp\<close>, in this order.
\<close>

theorem chat_api_total:
  "\<exists>r. chat_api L now req = Inr r \<and>
       (status_code r = 200 \<or> status_code r = 400 \<or> status_code r = 500) \<and>
       (status_code r \<noteq> 200 \<longrightarrow>
          (\<exists>msg. body r = JObj [(''error'', JStr msg), (''timestamp'', JStr now)]))"
proof (cases "chat_try L now req")
  case (Inl e)
  then show ?thesis by (simp add: chat_api_def error_response_def)
next
  case (Inr r)
  then have "chat_api L now req = Inr r" by (simp add: chat_api_def)
  moreover from Inr have "(status_code r = 200 \<or> status_code r = 400) \<and>
       (status_code r \<noteq> 200 \<longrightarrow>
          (\<exists>msg. body r = JObj [(''error'', JStr msg), (''timestamp'', JStr now)]))"
    by (auto simp: chat_try_def error_response_def split: sum.splits if_splits)
  ultimately show ?thesis by blast
qed

theorem chat_api_total_witness:
  "\<exists>r. chat_api example_builtins example_now (post_request (Inr (JInt 7))) = Inr r \<and>
       status_code r = 500 \<and> status_code r \<noteq> 200 \<and>
       (\<exists>msg. body r = JObj [(''error'', JStr msg), (''timestamp'', JStr example_now)])"
proof -
  have e: "chat_api example_builtins example_now (post_request (Inr (JInt 7))) =
             Inr (error_response ''Internal server error'' example_now 500)"
    by (simp add: chat_api_def chat_try_def post_request_def)
  from chat_api_total[of example_builtins example_now "post_request (Inr (JInt 7))"]
  obtain r where r: "chat_api example_builtins example_now (post_request (Inr (JInt 7))) = Inr r"
    and b: "status_code r \<noteq> 200 \<longrightarrow>
          (\<exists>msg. body r = JObj [(''error'', JStr msg), (''timestamp'', JStr example_now)])"
    by blast
  from e r have s: "status_code r = 500" by (simp add: error_response_def)
  with b have "\<exists>msg. body r = JObj [(''error'', JStr msg), (''timestamp'', JStr example_now)]"
    by simp
  with r s show ?thesis by auto
qed

text \<open>
  C7. When the body parses as a JSON object with a non-empty \<open>message\<close> and no
  \<open>user_id\<close>, the answer is HTTP 200 and the \<open>user_id\<close> of the response is
  \<open>anonymous\<close>. A non-empty string is truthy (\<open>truthy_JStr\<close>); the statement covers every
  message value that passes the validation.
\<close>

theorem chat_api_anonymous:
  assumes "get_json req = Inr (JObj kvs)"
    and "map_of kvs ''message'' = Some v" and "truthy v"
    and "map_of kvs ''user_id'' = None"
  shows "chat_api L now req =
    Inr \<lparr>body = JObj [(''status'', JStr ''success''),
                       (''user_id'', JStr ''anonymous''),
                       (''message_received'', v),
                       (''response'', JStr (''Echo: '' @ py_str L v)),
                       (''timestamp'', JStr now)],
         status_code = 200, mimetype = ''application/json''\<rparr>"
  using assms by (simp add: chat_api_def chat_try_dict dict_get_def)

theorem chat_api_anonymous_witness:
  "truthy (JStr ''Hello from anonymous'') \<and>
   chat_api example_builtins example_now
     (post_request (Inr (JObj [(''message'', JStr ''Hello from anonymous'')]))) =
    Inr \<lparr>body = JObj [(''status'', JStr ''success''),
                       (''user_id'', JStr ''anonymous''),
                       (''message_received'', JStr ''Hello from anonymous''),
                       (''response'', JStr ''Echo: Hello from anonymous''),
                       (''timestamp'', JStr example_now)],
         status_code = 200, mimetype = ''application/json''\<rparr>"
  using chat_api_anonymous[of
      "post_request (Inr (JObj [(''message'', JStr ''Hello from anonymous'')]))"
      "[(''message'', JStr ''Hello from anonymous'')]" "JStr ''Hello from anonymous''"
      example_builtins example_now]
  by (simp add: post_request_def)

text \<open>
  C10. Validation of \<open>message\<close> goes by truthiness. A \<open>message\<close> that is present and
  falsy (\<open>0\<close>, \<open>false\<close>, \<open>null\<close>, \<open>0.0\<close>, an empty array or object, as well as the empty
  string) is answered with HTTP 400 \<open>Message field is required\<close>. A \<open>message\<close> that is
  truthy and not a string (the number 42, say) is answered with HTTP 200 and the
  \<open>response\<close> \<open>"Echo: "\<close> followed by the string rendering of the value.
\<close>

theorem chat_api_truthiness:
  assumes "get_json req = Inr (JObj kvs)" and "map_of kvs ''message'' = Some v"
  shows "(\<not> truthy v \<longrightarrow>
           chat_api L now req =
             Inr \<lparr>body = JObj [(''error'', JStr ''Message field is required''),
                                (''timestamp'', JStr now)],
                  status_code = 400, mimetype = ''application/json''\<rparr>)
       \<and> (truthy v \<and> \<not> is_str v \<longrightarrow>
           chat_api L now req =
             Inr \<lparr>body = JObj [(''status'', JStr ''success''),
                                (''user_id'', dict_get kvs ''user_id'' (JStr ''anonymous'')),
                                (''message_received'', v),
                                (''response'', JStr (''Echo: '' @ py_repr L v)),
                                (''timestamp'', JStr now)],
                  status_code = 200, mimetype = ''application/json''\<rparr>)"
  using assms
  by (cases v) (simp_all add: chat_api_def chat_try_dict dict_get_def error_response_def)

theorem chat_api_truthiness_witness:
  "\<not> truthy (JInt 0) \<and>
   chat_api example_builtins example_now (post_request (Inr (JObj [(''message'', JInt 0)]))) =
     Inr \<lparr>body = JObj [(''error'', JStr ''Message field is required''),
                        (''timestamp'', JStr example_now)],
          status_code = 400, mimetype = ''application/json''\<rparr>
   \<and> truthy (JInt 42) \<and> \<not> is_str (JInt 42) \<and>
   chat_api example_builtins example_now (post_request (Inr (JObj [(''message'', JInt 42)]))) =
     Inr \<lparr>body = JObj [(''status'', JStr ''success''),
                        (''user_id'', JStr ''anonymous''),
                        (''message_received'', JInt 42),
                        (''response'', JStr ''Echo: 42''),
                        (''timestamp'', JStr example_now)],
          status_code = 200, mimetype = ''application/json''\<rparr>"
proof -
  have s: "str_int 42 = ''42''" by code_simp
  show ?thesis
    using chat_api_truthiness[of "post_request (Inr (JObj [(''message'', JInt 0)]))"
        "[(''message'', JInt 0)]" "JInt 0" example_builtins example_now]
      chat_api_truthiness[of "post_request (Inr (JObj [(''message'', JInt 42)]))"
        "[(''message'', JInt 42)]" "JInt 42" example_builtins example_now]
    by (simp add: post_request_def dict_get_def s)
qed

section \<open>The health endpoint\<close>

text \<open>
  C8. For every request, \<open>health_check\<close> returns HTTP 200 with a body whose \<open>status\<close> is
  \<open>healthy\<close> and which has a \<open>timestamp\<close> field. The function has a single path: it
  returns this response on every input.
\<close>

theorem health_check_healthy:
  "health_check now req =
     \<lparr>body = JObj [(''status'', JStr ''healthy''), (''timestamp'', JStr now)],
      status_code = 200, mimetype = ''application/json''\<rparr>
   \<and> map_of [(''status'', JStr ''healthy''), (''timestamp'', JStr now)] ''timestamp'' = Some (JStr now)"
  by (simp add: health_check_def)

section \<open>Properties of \<open>az_deploy\<close>\<close>

lemma block_cons_exit: "snd p = Exited c \<Longrightarrow> block (p # ps) = (fst p, Exited c)"
  by (simp add: and_then_def)

lemma block_cons_returned:
  "snd p = Returned () \<Longrightarrow> block (p # ps) = (fst p @ fst (block ps), snd (block ps))"
  by (simp add: and_then_def)

lemma block_cons_skip: "block (skip # ps) = block ps"
  by (simp add: and_then_def skip_def)

lemma snd_print_header: "snd (print_header m) = Returned ()"
  by (simp add: print_header_def)

text \<open>The three statements of a failed validation: two lines, then the exit.\<close>

lemma reject_block:
  "block [print_error m, print_info u, sys_exit c] =
     (fst (print_error m) @ fst (print_info u), Exited c)"
  by (simp add: and_then_def print_error_def print_info_def sys_exit_def skip_def)

lemma az_deploy_reject_function_app:
  assumes "fa = [] \<or> fa = ''your-function-app-name''"
  shows "az_deploy W fa rg =
     (fst (print_header ''Deploying to Azure Functions...'')
        @ fst (print_error ''FUNCTION_APP_NAME not set'') @ fst (print_info usage_az_deploy),
      Exited 1)"
proof -
  have g: "(if fa = [] \<or> fa = ''your-function-app-name''
            then block [print_error ''FUNCTION_APP_NAME not set'', print_info usage_az_deploy,
                        sys_exit 1]
            else skip) =
           (fst (print_error ''FUNCTION_APP_NAME not set'') @ fst (print_info usage_az_deploy),
            Exited 1)"
    using assms reject_block by simp
  show ?thesis
    unfolding az_deploy_def g
    by (simp only: block_cons_returned[OF snd_print_header] block_cons_exit[of _ 1]
        snd_conv fst_conv)
qed

lemma az_deploy_reject_resource_group:
  assumes "\<not> (fa = [] \<or> fa = ''your-function-app-name'')"
    and "rg = [] \<or> rg = ''your-resource-group''"
  shows "az_deploy W fa rg =
     (fst (print_header ''Deploying to Azure Functions...'')
        @ fst (print_error ''RESOURCE_GROUP not set'') @ fst (print_info usage_az_deploy),
      Exited 1)"
proof -
  have g1: "(if fa = [] \<or> fa = ''your-function-app-name''
             then block [print_error ''FUNCTION_APP_NAME not set'', print_info usage_az_deploy,
                         sys_exit 1]
             else skip) = skip"
    using assms(1) by simp
  have g2: "(if rg = [] \<or> rg = ''your-resource-group''
             then block [print_error ''RESOURCE_GROUP not set'', print_info usage_az_deploy,
                         sys_exit 1]
             else skip) =
            (fst (print_error ''RESOURCE_GROUP not set'') @ fst (print_info usage_az_deploy),
             Exited 1)"
    using assms(2) reject_block by simp
  show ?thesis
    unfolding az_deploy_def g1 g2
    by (simp only: block_cons_returned[OF snd_print_header] block_cons_skip
        block_cons_exit[of _ 1] snd_conv fst_conv)
qed

lemma prints_no_step:
  "filter is_step (fst (print_header h) @ fst (print_error m) @ fst (print_info u)) = []"
  by (simp add: print_header_def print_error_def print_info_def)

text \<open>The lines that a failed validation has written, byte by byte.\<close>

lemma header_lines:
  "fst (print_header ''Deploying to Azure Functions...'') =
     [Stdout ([CHR 0x0A, CHR 0x1B] @ ''[94m'' @ [CHR 0x1B] @ ''[1mDeploying to Azure Functions...''
              @ [CHR 0x1B] @ ''[0m'' @ [CHR 0x0A]),
      Stdout (''==============================='' @ [CHR 0x0A])]"
  by (simp add: print_header_def Colors_BLUE_def Colors_BOLD_def Colors_ENDC_def newline_def)

lemma error_line:
  "fst (print_error m) =
     [Stderr ([CHR 0x1B] @ ''[91m'' @ [CHR 0xE2, CHR 0x9D, CHR 0x8C] @ '' '' @ m
              @ [CHR 0x1B] @ ''[0m'' @ [CHR 0x0A])]"
  by (simp add: print_error_def Colors_RED_def Colors_ENDC_def newline_def)

lemma usage_line:
  "fst (print_info usage_az_deploy) =
     [Stdout ([CHR 0x1B] @ ''[94m'' @ [CHR 0xE2, CHR 0x84, CHR 0xB9, CHR 0xEF, CHR 0xB8, CHR 0x8F]
              @ ''  Usage: python build.py az-deploy --function-app <name> --resource-group <group>''
              @ [CHR 0x1B] @ ''[0m'' @ [CHR 0x0A])]"
  by (simp add: print_info_def usage_az_deploy_def Colors_BLUE_def Colors_ENDC_def newline_def)

text \<open>
  With both names set, the two validations are passed and the run goes on to the
  packaging and to the deployment command.
\<close>

lemma az_deploy_accept:
  assumes "\<not> (fa = [] \<or> fa = ''your-function-app-name'')"
    and "\<not> (rg = [] \<or> rg = ''your-resource-group'')"
  shows "az_deploy W fa rg =
     block [print_header ''Deploying to Azure Functions...'',
            az_package W,
            print_info (''Deploying to '' @ fa @ '' in '' @ rg @ ''...''),
            run_command W
              [''az'', ''functionapp'', ''deployment'', ''source'', ''config-zip'',
               ''--resource-group'', rg, ''--name'', fa,
               ''--src'', ''function-app.zip'', ''--build-remote'', ''true'']
              None True,
            print_success ''Deployment complete!'']"
proof -
  have g1: "(if fa = [] \<or> fa = ''your-function-app-name''
             then block [print_error ''FUNCTION_APP_NAME not set'', print_info usage_az_deploy,
                         sys_exit 1]
             else skip) = skip"
    using assms(1) by simp
  have g2: "(if rg = [] \<or> rg = ''your-resource-group''
             then block [print_error ''RESOURCE_GROUP not set'', print_info usage_az_deploy,
                         sys_exit 1]
             else skip) = skip"
    using assms(2) by simp
  show ?thesis
    unfolding az_deploy_def g1 g2
    by (simp only: block_cons_returned[OF snd_print_header] block_cons_skip)
qed

lemma az_deploy_example_run:
  "snd (az_deploy example_world ''my-app'' ''my-rg'') = Returned ()
   \<and> filter is_step (fst (az_deploy example_world ''my-app'' ''my-rg'')) =
       [FileSystem ''function-app.zip'',
        Subprocess [''az'', ''functionapp'', ''deployment'', ''source'', ''config-zip'',
                    ''--resource-group'', ''my-rg'', ''--name'', ''my-app'',
                    ''--src'', ''function-app.zip'', ''--build-remote'', ''true''] None]"
proof -
  have a: "\<not> (''my-app'' = [] \<or> ''my-app'' = ''your-function-app-name'')" by simp
  have b: "\<not> (''my-rg'' = [] \<or> ''my-rg'' = ''your-resource-group'')" by simp
  show ?thesis
    unfolding az_deploy_accept[OF a b]
    by (simp add: and_then_def skip_def print_header_def print_info_def print_success_def
        run_command_def example_world_def)
qed

text \<open>
  C9. Whenever the function-app name is unset (empty) or equals the placeholder
  \<open>your-function-app-name\<close>, or the resource group is unset (empty) or equals the
  placeholder \<open>your-resource-group\<close>, \<open>az_deploy\<close> exits the process with code 1. The whole
  run is given: the two header lines on standard output, the error message on standard
  error (\<open>FUNCTION_APP_NAME not set\<close> when the function-app name fails the first
  validation, \<open>RESOURCE_GROUP not set\<close> otherwise, in red after the cross mark), the usage
  line on standard output, then the exit. No effect on the file system and no started
  program is among its effects, so neither the packaging nor the deployment has run.
\<close>

theorem az_deploy_rejects_unset:
  assumes "fa = [] \<or> fa = ''your-function-app-name'' \<or> rg = [] \<or> rg = ''your-resource-group''"
  shows "az_deploy W fa rg =
          ([Stdout ([CHR 0x0A, CHR 0x1B] @ ''[94m'' @ [CHR 0x1B] @ ''[1mDeploying to Azure Functions...''
                    @ [CHR 0x1B] @ ''[0m'' @ [CHR 0x0A]),
            Stdout (''==============================='' @ [CHR 0x0A]),
            Stderr ([CHR 0x1B] @ ''[91m'' @ [CHR 0xE2, CHR 0x9D, CHR 0x8C] @ '' ''
                    @ (if fa = [] \<or> fa = ''your-function-app-name''
                       then ''FUNCTION_APP_NAME not set'' else ''RESOURCE_GROUP not set'')
                    @ [CHR 0x1B] @ ''[0m'' @ [CHR 0x0A]),
            Stdout ([CHR 0x1B] @ ''[94m'' @ [CHR 0xE2, CHR 0x84, CHR 0xB9, CHR 0xEF, CHR 0xB8, CHR 0x8F]
                    @ ''  Usage: python build.py az-deploy --function-app <name> --resource-group <group>''
                    @ [CHR 0x1B] @ ''[0m'' @ [CHR 0x0A])],
           Exited 1)
       \<and> snd (az_deploy W fa rg) = Exited 1
       \<and> filter is_step (fst (az_deploy W fa rg)) = []"
proof (cases "fa = [] \<or> fa = ''your-function-app-name''")
  case True
  have m: "(if fa = [] \<or> fa = ''your-function-app-name''
            then ''FUNCTION_APP_NAME not set'' else ''RESOURCE_GROUP not set'') =
           ''FUNCTION_APP_NAME not set''"
    using True by simp
  show ?thesis
    unfolding az_deploy_reject_function_app[OF True] m header_lines error_line usage_line
    by simp
next
  case False
  with assms have r: "rg = [] \<or> rg = ''your-resource-group''" by blast
  have m: "(if fa = [] \<or> fa = ''your-function-app-name''
            then ''FUNCTION_APP_NAME not set'' else ''RESOURCE_GROUP not set'') =
           ''RESOURCE_GROUP not set''"
    using False by simp
  show ?thesis
    unfolding az_deploy_reject_resource_group[OF False r] m header_lines error_line usage_line
    by simp
qed

theorem az_deploy_rejects_unset_witness:
  "(''your-function-app-name'' = [] \<or> ''your-function-app-name'' = ''your-function-app-name''
      \<or> ''my-rg'' = [] \<or> ''my-rg'' = ''your-resource-group'')
   \<and> az_deploy example_world ''your-function-app-name'' ''my-rg'' =
          ([Stdout ([CHR 0x0A, CHR 0x1B] @ ''[94m'' @ [CHR 0x1B] @ ''[1mDeploying to Azure Functions...''
                    @ [CHR 0x1B] @ ''[0m'' @ [CHR 0x0A]),
            Stdout (''==============================='' @ [CHR 0x0A]),
            Stderr ([CHR 0x1B] @ ''[91m'' @ [CHR 0xE2, CHR 0x9D, CHR 0x8C]
                    @ '' FUNCTION_APP_NAME not set'' @ [CHR 0x1B] @ ''[0m'' @ [CHR 0x0A]),
            Stdout ([CHR 0x1B] @ ''[94m'' @ [CHR 0xE2, CHR 0x84, CHR 0xB9, CHR 0xEF, CHR 0xB8, CHR 0x8F]
                    @ ''  Usage: python build.py az-deploy --function-app <name> --resource-group <group>''
                    @ [CHR 0x1B] @ ''[0m'' @ [CHR 0x0A])],
           Exited 1)
   \<and> filter is_step (fst (az_deploy example_world ''your-function-app-name'' ''my-rg'')) = []
   \<and> (''my-app'' = [] \<or> ''my-app'' = ''your-function-app-name''
      \<or> [] = [] \<or> [] = ''your-resource-group'')
   \<and> az_deploy example_world ''my-app'' [] =
          ([Stdout ([CHR 0x0A, CHR 0x1B] @ ''[94m'' @ [CHR 0x1B] @ ''[1mDeploying to Azure Functions...''
                    @ [CHR 0x1B] @ ''[0m'' @ [CHR 0x0A]),
            Stdout (''==============================='' @ [CHR 0x0A]),
            Stderr ([CHR 0x1B] @ ''[91m'' @ [CHR 0xE2, CHR 0x9D, CHR 0x8C]
                    @ '' RESOURCE_GROUP not set'' @ [CHR 0x1B] @ ''[0m'' @ [CHR 0x0A]),
            Stdout ([CHR 0x1B] @ ''[94m'' @ [CHR 0xE2, CHR 0x84, CHR 0xB9, CHR 0xEF, CHR 0xB8, CHR 0x8F]
                    @ ''  Usage: python build.py az-deploy --function-app <name> --resource-group <group>''
                    @ [CHR 0x1B] @ ''[0m'' @ [CHR 0x0A])],
           Exited 1)
   \<and> filter is_step (fst (az_deploy example_world ''my-app'' [])) = []"
  using az_deploy_rejects_unset[of "''your-function-app-name''" "''my-rg''" example_world]
    az_deploy_rejects_unset[of "''my-app''" "[]" example_world]
  by simp

text \<open>
  The same at the command line: \<open>main\<close> calls \<open>az_deploy\<close> for the command \<open>az-deploy\<close>,
  and an option that is neither given as a flag nor set in the environment arrives as
  its placeholder.
\<close>

lemma main_az_deploy:
  assumes "command a = Some ''az-deploy''" and "\<not> help a"
  shows "main W a environ =
     az_deploy W
       (py_or (function_app a) (environ_get environ ''FUNCTION_APP_NAME'' ''your-function-app-name''))
       (py_or (resource_group a) (environ_get environ ''RESOURCE_GROUP'' ''your-resource-group''))"
  using assms by (simp add: main_def py_or_def)

lemma main_az_deploy_unset:
  assumes "command a = Some ''az-deploy''" and "\<not> help a"
    and "(function_app a = None \<and> environ ''FUNCTION_APP_NAME'' = None) \<or>
         (resource_group a = None \<and> environ ''RESOURCE_GROUP'' = None)"
  shows "snd (main W a environ) = Exited 1 \<and> filter is_step (fst (main W a environ)) = []"
proof -
  let ?fa = "py_or (function_app a) (environ_get environ ''FUNCTION_APP_NAME'' ''your-function-app-name'')"
  let ?rg = "py_or (resource_group a) (environ_get environ ''RESOURCE_GROUP'' ''your-resource-group'')"
  from assms(3) have bad: "?fa = ''your-function-app-name'' \<or> ?rg = ''your-resource-group''"
    by (auto simp: py_or_def environ_get_def)
  show ?thesis
  proof (cases "?fa = [] \<or> ?fa = ''your-function-app-name''")
    case True
    show ?thesis
      unfolding main_az_deploy[OF assms(1,2)] az_deploy_reject_function_app[OF True]
      using prints_no_step by simp
  next
    case False
    with bad have r: "?rg = [] \<or> ?rg = ''your-resource-group''" by blast
    show ?thesis
      unfolding main_az_deploy[OF assms(1,2)] az_deploy_reject_resource_group[OF False r]
      using prints_no_step by simp
  qed
qed

end
